theory Spec2Isabelle
  imports Main
begin

section \<open>The etcd client of \<^verbatim>\<open>src/etcd/client.py\<close>\<close>

text \<open>
  The methods of class \<^verbatim>\<open>Client\<close> are embedded as functions in a state-and-error
  monad: an action takes the state of the world behind the transport and returns either
  the exception raised or the value returned, with the new state. The transport
  (\<^verbatim>\<open>urllib3\<close>), \<^verbatim>\<open>json.loads\<close> and the constructor \<^verbatim>\<open>etcd.EtcdResult\<close> are not part of
  the file and are parameters of the model.
\<close>

subsection \<open>Values and exceptions\<close>

datatype pyval = PNone | PBool bool | PInt int | PStr string

type_synonym params = "string \<rightharpoonup> pyval"

datatype error =
    AttributeError string
  | NameError string
  | UnboundLocalError string
  | KeyError string
  | TypeError string
  | ValueError string
  | EtcdException string
  | StopIteration
  | TransportError string

text \<open>
  What \<^verbatim>\<open>json.loads\<close> returns. The decoder only asks whether the value is a list and
  hands every other value to the constructor, so numbers are kept as integers here.
\<close>

datatype json =
    JNull
  | JBool bool
  | JNumber int
  | JString string
  | JArray "json list"
  | JObject "(string \<times> json) list"

type_synonym ('a, 'w) act = "'w \<Rightarrow> (error + 'a) \<times> 'w"

definition ret :: "'a \<Rightarrow> ('a, 'w) act" where
  "ret x = (\<lambda>w. (Inr x, w))"

definition throw :: "error \<Rightarrow> ('a, 'w) act" where
  "throw e = (\<lambda>w. (Inl e, w))"

definition and_then :: "('a, 'w) act \<Rightarrow> ('a \<Rightarrow> ('b, 'w) act) \<Rightarrow> ('b, 'w) act" where
  "and_then m f = (\<lambda>w. case m w of (Inl e, w') \<Rightarrow> (Inl e, w') | (Inr x, w') \<Rightarrow> f x w')"

subsection \<open>The collaborators\<close>

record response =
  status :: int
  data :: string

text \<open>
  The two entry points of the connection pool that \<^verbatim>\<open>api_execute\<close> calls:
  \<^verbatim>\<open>request(method, url, fields, redirect)\<close> and
  \<^verbatim>\<open>request_encode_body(method, url, fields, encode_multipart, redirect)\<close>.
\<close>

datatype http_call =
    Request string string "params option" bool
  | Request_encode_body string string "params option" bool bool

record ('w, 'r) env =
  http :: "http_call \<Rightarrow> (response, 'w) act"
  json_loads :: "string \<Rightarrow> error + json"
  EtcdResult :: "(string \<times> json) list \<Rightarrow> error + 'r"

subsection \<open>The client object\<close>

text \<open>The instance attributes that \<^verbatim>\<open>__init__\<close> sets (lines 57 to 64).\<close>

record client =
  host :: string
  port :: int
  protocol :: string
  base_uri :: string
  version_prefix :: string
  read_timeout :: int
  allow_redirect :: bool

text \<open>
  The string-valued attributes of a \<^verbatim>\<open>Client\<close>: the class attributes of lines 21 to 23,
  the instance attributes and the properties of lines 90 to 155. The class binds neither
  \<^verbatim>\<open>_MPOST\<close> nor \<^verbatim>\<open>watch_endpoint\<close>.
\<close>

definition str_attrs :: "client \<Rightarrow> (string \<times> string) list" where
  "str_attrs c =
     [(''_MGET'', ''GET''), (''_MPUT'', ''PUT''), (''_MDELETE'', ''DELETE''),
      (''_host'', host c), (''_protocol'', protocol c), (''_base_uri'', base_uri c),
      (''version_prefix'', version_prefix c),
      (''base_uri'', base_uri c), (''host'', host c), (''protocol'', protocol c),
      (''key_endpoint'', version_prefix c @ ''/keys'')]"

definition getattr :: "client \<Rightarrow> string \<Rightarrow> (string, 'w) act" where
  "getattr c name =
     (case map_of (str_attrs c) name of
        None \<Rightarrow> throw (AttributeError name)
      | Some v \<Rightarrow> ret v)"

definition comparison_conditions :: "string list" where
  "comparison_conditions = [''prevValue'', ''prevIndex'', ''prevExists'']"

subsection \<open>\<^verbatim>\<open>api_execute\<close> (lines 391 to 414)\<close>

text \<open>
  After the request, status 200 returns the body. On any other status the code evaluates
  the name \<^verbatim>\<open>EtcdError\<close>, which the module neither defines nor imports (it imports
  \<^verbatim>\<open>urllib3\<close>, \<^verbatim>\<open>json\<close>, \<^verbatim>\<open>ssl\<close> and \<^verbatim>\<open>etcd\<close>): the callee of a call is evaluated before
  its arguments, so the lookup fails before the body is parsed.
\<close>

definition check_status :: "response \<Rightarrow> (string, 'w) act" where
  "check_status resp =
     (if status resp = 200 then ret (data resp) else throw (NameError ''EtcdError''))"

text \<open>
  A method that is neither \<^verbatim>\<open>GET\<close> nor \<^verbatim>\<open>DELETE\<close> reaches the comparison with
  \<^verbatim>\<open>self._MPOST\<close>. Were the attribute bound and different from the method, no branch
  would assign \<^verbatim>\<open>response\<close>.
\<close>

definition api_execute ::
  "client \<Rightarrow> ('w, 'r) env \<Rightarrow> string \<Rightarrow> string \<Rightarrow> params option \<Rightarrow> (string, 'w) act" where
  "api_execute c ev path method params =
     and_then (getattr c ''_base_uri'') (\<lambda>b.
     let url = b @ path in
     and_then (getattr c ''_MGET'') (\<lambda>mget.
     if method = mget
     then and_then (http ev (Request method url params (allow_redirect c))) check_status
     else and_then (getattr c ''_MDELETE'') (\<lambda>mdelete.
     if method = mdelete
     then and_then (http ev (Request method url params (allow_redirect c))) check_status
     else and_then (getattr c ''_MPOST'') (\<lambda>mpost.
     if method = mpost
     then and_then (http ev (Request_encode_body method url params False (allow_redirect c)))
            check_status
     else throw (UnboundLocalError ''response'')))))"

subsection \<open>\<^verbatim>\<open>_result_from_response\<close> (lines 381 to 389)\<close>

datatype 'r decoded = Single 'r | Many "'r list"

text \<open>\<^verbatim>\<open>etcd.EtcdResult(**v)\<close>: the argument after \<^verbatim>\<open>**\<close> must be a mapping.\<close>

definition construct :: "('w, 'r) env \<Rightarrow> json \<Rightarrow> error + 'r" where
  "construct ev v =
     (case v of
        JObject kw \<Rightarrow> EtcdResult ev kw
      | _ \<Rightarrow> Inl (TypeError ''argument after ** must be a mapping''))"

text \<open>The list comprehension: left to right, the first exception ends it.\<close>

fun construct_each :: "('w, 'r) env \<Rightarrow> json list \<Rightarrow> error + 'r list" where
  "construct_each ev [] = Inr []"
| "construct_each ev (v # vs) =
     (case construct ev v of
        Inl e \<Rightarrow> Inl e
      | Inr r \<Rightarrow> (case construct_each ev vs of Inl e \<Rightarrow> Inl e | Inr rs \<Rightarrow> Inr (r # rs)))"

text \<open>The body of the \<^verbatim>\<open>try\<close> block.\<close>

definition try_decode :: "('w, 'r) env \<Rightarrow> string \<Rightarrow> error + 'r decoded" where
  "try_decode ev resp =
     (case json_loads ev resp of
        Inl e \<Rightarrow> Inl e
      | Inr res \<Rightarrow>
          (case res of
             JArray vs \<Rightarrow>
               (case construct_each ev vs of Inl e \<Rightarrow> Inl e | Inr rs \<Rightarrow> Inr (Many rs))
           | _ \<Rightarrow> (case construct ev res of Inl e \<Rightarrow> Inl e | Inr r \<Rightarrow> Inr (Single r))))"

text \<open>The bare \<^verbatim>\<open>except\<close> turns every exception of the block into one exception.\<close>

definition result_from_response :: "('w, 'r) env \<Rightarrow> string \<Rightarrow> ('r decoded, 'w) act" where
  "result_from_response ev resp =
     (case try_decode ev resp of
        Inl e \<Rightarrow> throw (EtcdException ''Unable to decode server response'')
      | Inr r \<Rightarrow> ret r)"

subsection \<open>\<^verbatim>\<open>write\<close>, \<^verbatim>\<open>test_and_set\<close>, \<^verbatim>\<open>set\<close> (lines 174 to 295)\<close>

text \<open>
  \<^verbatim>\<open>write\<close> and \<^verbatim>\<open>set\<close> are the constants \<open>write_key\<close> and \<open>set_key\<close> here. The header
  of \<^verbatim>\<open>write\<close> lacks its colon in this revision; the body is modelled as it is written. \<^verbatim>\<open>if ttl:\<close> is Python's truth test: \<^verbatim>\<open>None\<close> and \<^verbatim>\<open>0\<close> are false, every
  other integer is true.
\<close>

definition truthy :: "int option \<Rightarrow> bool" where
  "truthy x = (case x of None \<Rightarrow> False | Some i \<Rightarrow> i \<noteq> 0)"

text \<open>The loop of lines 206 to 208 over \<^verbatim>\<open>self._comparison_conditions\<close>.\<close>

fun copy_conditions :: "string list \<Rightarrow> params \<Rightarrow> params \<Rightarrow> params" where
  "copy_conditions [] kwdargs params = params"
| "copy_conditions (condition # rest) kwdargs params =
     copy_conditions rest kwdargs
       (case kwdargs condition of
          Some v \<Rightarrow> params(condition \<mapsto> v)
        | None \<Rightarrow> params)"

text \<open>Lines 199 to 209: the dictionary \<^verbatim>\<open>params\<close> that \<^verbatim>\<open>write\<close> hands to the dispatcher.\<close>

definition write_params :: "pyval \<Rightarrow> int option \<Rightarrow> params \<Rightarrow> params" where
  "write_params val ttl kwdargs =
     (let params0 = [''value'' \<mapsto> val];
          params1 = (case ttl of
                       Some t \<Rightarrow> if truthy ttl then params0(''ttl'' \<mapsto> PInt t) else params0
                     | None \<Rightarrow> params0)
      in copy_conditions comparison_conditions kwdargs params1)"

definition write_key ::
  "client \<Rightarrow> ('w, 'r) env \<Rightarrow> string \<Rightarrow> pyval \<Rightarrow> int option \<Rightarrow> params \<Rightarrow> ('r decoded, 'w) act" where
  "write_key c ev key val ttl kwdargs =
     (let params = write_params val ttl kwdargs in
      and_then (getattr c ''key_endpoint'') (\<lambda>ke.
      let path = ke @ key in
      and_then (getattr c ''_MPUT'') (\<lambda>mput.
      and_then (api_execute c ev path mput (Some params)) (\<lambda>resp.
      result_from_response ev resp))))"



subsection \<open>\<^verbatim>\<open>get\<close> and \<^verbatim>\<open>__contains__\<close> (lines 158 to 169 and 298 to 319)\<close>

definition get :: "client \<Rightarrow> ('w, 'r) env \<Rightarrow> string \<Rightarrow> ('r decoded, 'w) act" where
  "get c ev key =
     and_then (getattr c ''key_endpoint'') (\<lambda>ke.
     and_then (getattr c ''_MGET'') (\<lambda>mget.
     and_then (api_execute c ev (ke @ key) mget (Some [''recursive'' \<mapsto> PStr ''true''])) (\<lambda>resp.
     result_from_response ev resp)))"

definition contains :: "client \<Rightarrow> ('w, 'r) env \<Rightarrow> string \<Rightarrow> (bool, 'w) act" where
  "contains c ev key =
     (\<lambda>w. case get c ev key w of
             (Inr r, w') \<Rightarrow> (Inr True, w')
           | (Inl (KeyError m), w') \<Rightarrow> (Inr False, w')
           | (Inl e, w') \<Rightarrow> (Inl e, w'))"

subsection \<open>\<^verbatim>\<open>watch\<close> (lines 321 to 351)\<close>

text \<open>Lines 341 to 345: the locals \<^verbatim>\<open>params\<close> and \<^verbatim>\<open>method\<close>.\<close>

definition watch_locals :: "client \<Rightarrow> int option \<Rightarrow> (params option \<times> string, 'w) act" where
  "watch_locals c index =
     and_then (getattr c ''_MGET'') (\<lambda>mget.
     case index of
       None \<Rightarrow> ret (None, mget)
     | Some i \<Rightarrow>
         if truthy index
         then and_then (getattr c ''_MPOST'') (\<lambda>mpost. ret (Some [''index'' \<mapsto> PInt i], mpost))
         else ret (None, mget))"

definition watch ::
  "client \<Rightarrow> ('w, 'r) env \<Rightarrow> string \<Rightarrow> int option \<Rightarrow> ('r decoded, 'w) act" where
  "watch c ev key index =
     and_then (watch_locals c index) (\<lambda>(params, method).
     and_then (getattr c ''watch_endpoint'') (\<lambda>we.
     and_then (api_execute c ev (we @ key) method params) (\<lambda>resp.
     result_from_response ev resp)))"

subsection \<open>\<^verbatim>\<open>ethernal_watch\<close> (lines 354 to 378)\<close>

text \<open>
  The generator is a value holding its local \<^verbatim>\<open>local_index\<close>; creating it runs no code.
  One \<^verbatim>\<open>next\<close> runs the loop body up to the \<^verbatim>\<open>yield\<close>: the call of \<^verbatim>\<open>self.watch\<close>, then the
  increment. An exception of the call ends the generator. \<^verbatim>\<open>self.watch\<close> is a parameter
  here, so that the loop is described for every behaviour of the call.
\<close>

datatype generator = Running "int option" | Finished

definition ethernal_watch :: "int option \<Rightarrow> generator" where
  "ethernal_watch index = Running index"

fun next_event ::
  "(string \<Rightarrow> int option \<Rightarrow> ('a, 'w) act) \<Rightarrow> string \<Rightarrow> generator \<Rightarrow> 'w \<Rightarrow>
     ((error + 'a) \<times> generator) \<times> 'w" where
  "next_event wat key Finished w = ((Inl StopIteration, Finished), w)"
| "next_event wat key (Running local_index) w =
     (case wat key local_index w of
        (Inl e, w') \<Rightarrow> ((Inl e, Finished), w')
      | (Inr r, w') \<Rightarrow>
          ((Inr r, Running (case local_index of None \<Rightarrow> None | Some i \<Rightarrow> Some (i + 1))), w'))"

text \<open>
  A consumer that pulls up to \<open>n\<close> events, as a \<^verbatim>\<open>for\<close> loop does: it stops at the first
  exception. Each entry records the cursor that the pull passed to \<^verbatim>\<open>self.watch\<close> and
  what the pull produced.
\<close>

fun pull ::
  "(string \<Rightarrow> int option \<Rightarrow> ('a, 'w) act) \<Rightarrow> string \<Rightarrow> nat \<Rightarrow> generator \<Rightarrow> 'w \<Rightarrow>
     (int option \<times> (error + 'a)) list \<times> generator \<times> 'w" where
  "pull wat key 0 g w = ([], g, w)"
| "pull wat key (Suc n) Finished w = ([], Finished, w)"
| "pull wat key (Suc n) (Running local_index) w =
     (case next_event wat key (Running local_index) w of
        ((Inl e, g'), w') \<Rightarrow> ([(local_index, Inl e)], g', w')
      | ((Inr r, g'), w') \<Rightarrow>
          (case pull wat key n g' w' of
             (evs, g'', w'') \<Rightarrow> ((local_index, Inr r) # evs, g'', w'')))"

subsection \<open>Test doubles for the collaborators\<close>

text \<open>
  A client as \<^verbatim>\<open>Client()\<close> builds it, a transport that records every call and answers
  each with the same outcome, a parser given by a finite table of bodies, a constructor
  that requires the keyword \<^verbatim>\<open>key\<close>, and a watch call that always delivers.
\<close>

definition a_client :: client where
  "a_client = \<lparr>host = ''127.0.0.1'', port = 4001, protocol = ''http'',
     base_uri = ''http://127.0.0.1:4001'', version_prefix = ''/v2'',
     read_timeout = 60, allow_redirect = True\<rparr>"

definition replying :: "error + response \<Rightarrow> http_call \<Rightarrow> (response, http_call list) act" where
  "replying answer call = (\<lambda>log. (answer, log @ [call]))"

definition table_loads :: "(string \<times> json) list \<Rightarrow> string \<Rightarrow> error + json" where
  "table_loads table s =
     (case map_of table s of
        None \<Rightarrow> Inl (ValueError ''No JSON object could be decoded'')
      | Some v \<Rightarrow> Inr v)"

definition keyed_result :: "(string \<times> json) list \<Rightarrow> error + (string \<times> json) list" where
  "keyed_result kw =
     (case map_of kw ''key'' of
        None \<Rightarrow> Inl (TypeError ''missing keyword argument'')
      | Some k \<Rightarrow> Inr kw)"

definition bodies :: "(string \<times> json) list" where
  "bodies =
     [(''{\"key\": \"/a\"}'', JObject [(''key'', JString ''/a'')]),
      (''[{\"key\": \"/b\"}, {\"key\": \"/a\"}]'',
         JArray [JObject [(''key'', JString ''/b'')], JObject [(''key'', JString ''/a'')]]),
      (''[{\"key\": \"/b\"}, 7]'', JArray [JObject [(''key'', JString ''/b'')], JNumber 7]),
      (''{\"errorCode\": 100}'', JObject [(''errorCode'', JNumber 100)])]"

definition test_env :: "error + response \<Rightarrow> (http_call list, (string \<times> json) list) env" where
  "test_env answer =
     \<lparr>http = replying answer, json_loads = table_loads bodies, EtcdResult = keyed_result\<rparr>"

definition idle_env :: "(http_call list, (string \<times> json) list) env" where
  "idle_env = test_env (Inl (TransportError ''no connection''))"


section \<open>Properties\<close>

subsection \<open>Sequencing and attribute lookup\<close>

lemma and_then_ret: "and_then (ret x) f = f x"
  by (simp add: and_then_def ret_def)

lemma and_then_throw: "and_then (throw e) f = throw e"
  by (simp add: and_then_def throw_def)

lemma getattr_MGET: "getattr c ''_MGET'' = ret ''GET''"
  by (simp add: getattr_def str_attrs_def)

lemma getattr_MPUT: "getattr c ''_MPUT'' = ret ''PUT''"
  by (simp add: getattr_def str_attrs_def)

lemma getattr_MDELETE: "getattr c ''_MDELETE'' = ret ''DELETE''"
  by (simp add: getattr_def str_attrs_def)

lemma getattr_base_uri: "getattr c ''_base_uri'' = ret (base_uri c)"
  by (simp add: getattr_def str_attrs_def)

lemma getattr_key_endpoint: "getattr c ''key_endpoint'' = ret (version_prefix c @ ''/keys'')"
  by (simp add: getattr_def str_attrs_def)

lemma getattr_MPOST: "getattr c ''_MPOST'' = throw (AttributeError ''_MPOST'')"
  by (simp add: getattr_def str_attrs_def)

lemma getattr_watch_endpoint:
  "getattr c ''watch_endpoint'' = throw (AttributeError ''watch_endpoint'')"
  by (simp add: getattr_def str_attrs_def)

lemmas getattr_simps = getattr_MGET getattr_MPUT getattr_MDELETE getattr_base_uri
  getattr_key_endpoint getattr_MPOST getattr_watch_endpoint and_then_ret and_then_throw

lemmas test_env_simps = test_env_def idle_env_def replying_def table_loads_def keyed_result_def
  bodies_def a_client_def

lemmas run_simps = and_then_def ret_def throw_def check_status_def result_from_response_def
  try_decode_def construct_def

subsection \<open>The dispatcher\<close>

lemma api_execute_PUT:
  "api_execute c ev path ''PUT'' params = throw (AttributeError ''_MPOST'')"
  by (simp add: api_execute_def getattr_simps)

lemma api_execute_GET:
  "api_execute c ev path ''GET'' params =
     and_then (http ev (Request ''GET'' (base_uri c @ path) params (allow_redirect c))) check_status"
  by (simp add: api_execute_def getattr_simps)

lemma api_execute_DELETE:
  "api_execute c ev path ''DELETE'' params =
     and_then (http ev (Request ''DELETE'' (base_uri c @ path) params (allow_redirect c)))
       check_status"
  by (simp add: api_execute_def getattr_simps)

lemma write_key_throw:
  "write_key c ev key val ttl kwdargs = throw (AttributeError ''_MPOST'')"
  by (simp add: write_key_def getattr_simps api_execute_PUT)

text \<open>
  C1. The claim: every \<^verbatim>\<open>write(key, value, ...)\<close> has the dispatcher execute an HTTP PUT to
  the keys path with the parameters as a request body, and on status 200 the raw body is
  returned and decoded into a result. The code does not do so: \<^verbatim>\<open>PUT\<close> is neither \<^verbatim>\<open>GET\<close>
  nor \<^verbatim>\<open>DELETE\<close>, so \<^verbatim>\<open>api_execute\<close> evaluates \<^verbatim>\<open>self._MPOST\<close>, which the class does not
  bind. On the example of the method's own docstring, with a server that would answer
  200, the call raises \<^verbatim>\<open>AttributeError\<close> and the transport has recorded no call.
\<close>

theorem write_executes_no_put:
  "write_key a_client (test_env (Inr \<lparr>status = 200, data = ''{\"key\": \"/a\"}''\<rparr>))
     ''/key'' (PStr ''newValue'') (Some 60) [''prevExists'' \<mapsto> PBool False] []
   = (Inl (AttributeError ''_MPOST''), [])"
  by (simp add: write_key_throw throw_def)

text \<open>
  C6. The claim: on a status other than 200 the dispatcher parses the body as the
  server's error object and fails with the typed error carrying its fields, and with a
  decode error when the body does not parse. The code does neither: the branch names
  \<^verbatim>\<open>EtcdError\<close>, which the module does not define, so both a well-formed error body and
  an unparsable one end in \<^verbatim>\<open>NameError\<close>, after the request has been made.
\<close>

theorem error_status_raises_NameError:
  "api_execute a_client
     (test_env (Inr \<lparr>status = 404,
        data = ''{\"errorCode\":100,\"message\":\"Key not found\",\"cause\":\"/foo\",\"index\":5}''\<rparr>))
     ''/v2/keys/foo'' ''GET'' None []
   = (Inl (NameError ''EtcdError''),
      [Request ''GET'' ''http://127.0.0.1:4001/v2/keys/foo'' None True])
   \<and> api_execute a_client (test_env (Inr \<lparr>status = 500, data = ''<html>''\<rparr>))
     ''/v2/keys/foo'' ''GET'' None []
   = (Inl (NameError ''EtcdError''),
      [Request ''GET'' ''http://127.0.0.1:4001/v2/keys/foo'' None True])"
  by (simp add: api_execute_GET test_env_simps run_simps)

subsection \<open>The parameters of a write\<close>

lemma copy_conditions_apply:
  "copy_conditions cs kwdargs params k =
     (if k \<in> set cs \<and> kwdargs k \<noteq> None then kwdargs k else params k)"
  by (induction cs arbitrary: params) (auto split: option.splits)

lemma ttl_not_condition: "''ttl'' \<notin> set comparison_conditions"
  by (simp add: comparison_conditions_def)

lemma copy_conditions_restrict:
  "copy_conditions cs (kwdargs |` set cs) params = copy_conditions cs kwdargs params"
  by (rule ext) (auto simp add: copy_conditions_apply restrict_map_def)

lemma write_params_restrict:
  "write_params val ttl (kwdargs |` set comparison_conditions) = write_params val ttl kwdargs"
  by (simp add: write_params_def copy_conditions_restrict Let_def)

text \<open>
  C2, as the code has it: a keyword argument of \<^verbatim>\<open>write\<close> whose name is not one of
  \<^verbatim>\<open>prevValue\<close>, \<^verbatim>\<open>prevIndex\<close>, \<^verbatim>\<open>prevExists\<close> is ignored. The parameters built for
  the request, and the outcome of the call, are those of the same call without it, and
  the parameters carry no name beyond \<^verbatim>\<open>value\<close>, \<^verbatim>\<open>ttl\<close> and the three recognized ones.
\<close>

theorem unrecognized_condition_dropped:
  "write_params val ttl kwdargs = write_params val ttl (kwdargs |` set comparison_conditions)
   \<and> write_key c ev key val ttl kwdargs
       = write_key c ev key val ttl (kwdargs |` set comparison_conditions)
   \<and> dom (write_params val ttl kwdargs) \<subseteq> {''value'', ''ttl''} \<union> set comparison_conditions"
  by (auto simp add: write_params_restrict write_key_throw write_params_def Let_def
        copy_conditions_apply domIff split: option.splits if_splits)

text \<open>
  The claim C2 itself, that such a call is rejected at the boundary, fails:
  \<^verbatim>\<open>write('/key', 'newValue', foo='x')\<close> builds the parameters of
  \<^verbatim>\<open>write('/key', 'newValue')\<close> and goes on to the dispatcher, where it ends as every
  write does.
\<close>

theorem unrecognized_condition_not_rejected:
  "write_params (PStr ''newValue'') None [''foo'' \<mapsto> PStr ''x''] = [''value'' \<mapsto> PStr ''newValue'']
   \<and> write_params (PStr ''newValue'') None Map.empty = [''value'' \<mapsto> PStr ''newValue'']
   \<and> write_key a_client idle_env ''/key'' (PStr ''newValue'') None [''foo'' \<mapsto> PStr ''x''] []
       = (Inl (AttributeError ''_MPOST''), [])
   \<and> write_key a_client idle_env ''/key'' (PStr ''newValue'') None Map.empty []
       = (Inl (AttributeError ''_MPOST''), [])"
  by (auto simp add: write_params_def Let_def copy_conditions_apply comparison_conditions_def
        write_key_throw throw_def)

text \<open>
  C7, as the code has it: the parameters of a write carry \<^verbatim>\<open>ttl\<close> exactly when a ttl
  was given and is not zero, and then they carry the given number, negative or not.
\<close>

theorem ttl_sent_iff_nonzero:
  "write_params val ttl kwdargs ''ttl'' =
     (case ttl of None \<Rightarrow> None | Some t \<Rightarrow> if t = 0 then None else Some (PInt t))"
  by (simp add: write_params_def copy_conditions_apply ttl_not_condition truthy_def Let_def
        split: option.splits)

text \<open>
  The claim C7 itself, that a ttl that is not positive is left out, fails at \<open>- 1\<close>.
\<close>

theorem negative_ttl_is_sent:
  "write_params (PStr ''newValue'') (Some (- 1)) Map.empty ''ttl'' = Some (PInt (- 1))"
  by (simp add: write_params_def copy_conditions_apply ttl_not_condition truthy_def Let_def)


subsection \<open>Watching\<close>

lemma watch_locals_falsy:
  "\<not> truthy index \<Longrightarrow> watch_locals c index = ret (None, ''GET'')"
  by (simp add: watch_locals_def getattr_simps truthy_def split: option.splits)

lemma watch_locals_truthy:
  "truthy index \<Longrightarrow> watch_locals c index = throw (AttributeError ''_MPOST'')"
  by (simp add: watch_locals_def getattr_simps truthy_def split: option.splits)

lemma watch_throw:
  "watch c ev key index =
     throw (AttributeError (if truthy index then ''_MPOST'' else ''watch_endpoint''))"
  by (cases "truthy index")
     (simp_all add: watch_def watch_locals_falsy watch_locals_truthy getattr_simps)

text \<open>
  C3. The claim: \<^verbatim>\<open>watch(key)\<close> issues a GET with no parameters, and \<^verbatim>\<open>watch(key, index)\<close>
  issues a POST carrying the parameter \<^verbatim>\<open>index\<close>. The code issues neither: with an index
  the method is read from \<^verbatim>\<open>self._MPOST\<close>, without one the path is read from
  \<^verbatim>\<open>self.watch_endpoint\<close>, and the class binds neither name. Both calls raise
  \<^verbatim>\<open>AttributeError\<close> and the transport has recorded no call.
\<close>

theorem watch_issues_no_request:
  "watch a_client (test_env (Inr \<lparr>status = 200, data = ''{\"key\": \"/a\"}''\<rparr>)) ''/key'' (Some 5) []
     = (Inl (AttributeError ''_MPOST''), [])
   \<and> watch a_client (test_env (Inr \<lparr>status = 200, data = ''{\"key\": \"/a\"}''\<rparr>)) ''/key'' None []
     = (Inl (AttributeError ''watch_endpoint''), [])"
  by (simp add: watch_throw throw_def truthy_def)


subsection \<open>The perpetual watch\<close>


text \<open>A watch call that never raises delivers an event at every pull.\<close>

lemma pull_delivers:
  assumes "\<And>i w. \<exists>r w'. wat key i w = (Inr r, w')"
  shows "length (fst (pull wat key n (Running li) w)) = n"
proof (induction n arbitrary: li w)
  case 0
  then show ?case by simp
next
  case (Suc n)
  from assms obtain r w1 where step: "wat key li w = (Inr r, w1)" by blast
  define li' where "li' = (case li of None \<Rightarrow> None | Some i \<Rightarrow> Some (i + 1))"
  obtain evs g2 w2 where p: "pull wat key n (Running li') w1 = (evs, g2, w2)"
    by (cases "pull wat key n (Running li') w1") auto
  from Suc.IH [of li' w1] p have "length evs = n" by simp
  with step p show ?case by (simp add: li'_def)
qed

text \<open>With the \<^verbatim>\<open>watch\<close> of this revision the first pull ends the generator.\<close>

lemma pull_watch:
  "pull (watch c ev) key (Suc n) (ethernal_watch index) w
     = ([(index, Inl (AttributeError (if truthy index then ''_MPOST'' else ''watch_endpoint'')))],
        Finished, w)"
  by (simp add: ethernal_watch_def watch_throw throw_def)



subsection \<open>Decoding\<close>

lemma construct_each_map:
  "\<forall>v\<in>set vs. \<exists>r. construct ev v = Inr r \<Longrightarrow>
     construct_each ev vs = Inr (map (\<lambda>v. projr (construct ev v)) vs)"
  by (induction vs) auto

lemma construct_each_fail:
  "v \<in> set vs \<Longrightarrow> construct ev v = Inl e \<Longrightarrow> \<exists>e'. construct_each ev vs = Inl e'"
  by (induction vs) (auto split: sum.splits)

lemma result_from_response_error:
  "result_from_response ev body w = (Inl e, w') \<Longrightarrow>
     e = EtcdException ''Unable to decode server response'' \<and> w' = w"
  by (auto simp add: result_from_response_def throw_def ret_def split: sum.splits)

text \<open>
  C5. When the body parses as a JSON sequence whose elements each construct a result,
  the decoder returns one result per element, each built from its own element, in the
  order of the elements. When it parses as one JSON object that constructs a result, the
  decoder returns that one result. When the body does not parse, when an element of the
  sequence does not construct a result, or when the single value does not, the decoder
  fails with the one exception \<^verbatim>\<open>EtcdException('Unable to decode server response')\<close>; it
  fails with no other.
\<close>

theorem decode_shapes:
  "(json_loads ev body = Inr (JArray vs) \<longrightarrow> (\<forall>v\<in>set vs. \<exists>r. construct ev v = Inr r) \<longrightarrow>
      result_from_response ev body w
        = (Inr (Many (map (\<lambda>v. projr (construct ev v)) vs)), w))
   \<and> (json_loads ev body = Inr (JObject kw) \<longrightarrow> EtcdResult ev kw = Inr r \<longrightarrow>
      result_from_response ev body w = (Inr (Single r), w))
   \<and> (json_loads ev body = Inl e \<longrightarrow>
      result_from_response ev body w
        = (Inl (EtcdException ''Unable to decode server response''), w))
   \<and> (json_loads ev body = Inr (JArray vs) \<longrightarrow> v \<in> set vs \<longrightarrow> construct ev v = Inl e \<longrightarrow>
      result_from_response ev body w
        = (Inl (EtcdException ''Unable to decode server response''), w))
   \<and> (json_loads ev body = Inr j \<longrightarrow> (\<forall>us. j \<noteq> JArray us) \<longrightarrow> construct ev j = Inl e \<longrightarrow>
      result_from_response ev body w
        = (Inl (EtcdException ''Unable to decode server response''), w))
   \<and> (fst (result_from_response ev body w) = Inl e \<longrightarrow>
      e = EtcdException ''Unable to decode server response'')"
proof (intro conjI impI)
  assume "json_loads ev body = Inr (JArray vs)" "\<forall>v\<in>set vs. \<exists>r. construct ev v = Inr r"
  then show "result_from_response ev body w
        = (Inr (Many (map (\<lambda>v. projr (construct ev v)) vs)), w)"
    by (simp add: result_from_response_def try_decode_def construct_each_map ret_def)
next
  assume "json_loads ev body = Inr (JObject kw)" "EtcdResult ev kw = Inr r"
  then show "result_from_response ev body w = (Inr (Single r), w)"
    by (simp add: result_from_response_def try_decode_def construct_def ret_def)
next
  assume "json_loads ev body = Inl e"
  then show "result_from_response ev body w
        = (Inl (EtcdException ''Unable to decode server response''), w)"
    by (simp add: result_from_response_def try_decode_def throw_def)
next
  assume "json_loads ev body = Inr (JArray vs)" "v \<in> set vs" "construct ev v = Inl e"
  moreover from this obtain e' where "construct_each ev vs = Inl e'"
    using construct_each_fail by blast
  ultimately show "result_from_response ev body w
        = (Inl (EtcdException ''Unable to decode server response''), w)"
    by (simp add: result_from_response_def try_decode_def throw_def)
next
  assume "json_loads ev body = Inr j" "\<forall>us. j \<noteq> JArray us" "construct ev j = Inl e"
  then show "result_from_response ev body w
        = (Inl (EtcdException ''Unable to decode server response''), w)"
    by (cases j) (simp_all add: result_from_response_def try_decode_def throw_def)
next
  assume "fst (result_from_response ev body w) = Inl e"
  then show "e = EtcdException ''Unable to decode server response''"
    using result_from_response_error [of ev body w e "snd (result_from_response ev body w)"]
    by (simp add: prod_eq_iff)
qed

theorem decode_shapes_witness:
  "json_loads idle_env ''[{\"key\": \"/b\"}, {\"key\": \"/a\"}]''
     = Inr (JArray [JObject [(''key'', JString ''/b'')], JObject [(''key'', JString ''/a'')]])
   \<and> result_from_response idle_env ''[{\"key\": \"/b\"}, {\"key\": \"/a\"}]'' []
     = (Inr (Many [[(''key'', JString ''/b'')], [(''key'', JString ''/a'')]]), [])
   \<and> result_from_response idle_env ''{\"key\": \"/a\"}'' []
     = (Inr (Single [(''key'', JString ''/a'')]), [])
   \<and> result_from_response idle_env ''<html>'' []
     = (Inl (EtcdException ''Unable to decode server response''), [])
   \<and> result_from_response idle_env ''[{\"key\": \"/b\"}, 7]'' []
     = (Inl (EtcdException ''Unable to decode server response''), [])
   \<and> result_from_response idle_env ''{\"errorCode\": 100}'' []
     = (Inl (EtcdException ''Unable to decode server response''), [])"
  using
    decode_shapes [where ev = idle_env and body = "''[{\"key\": \"/b\"}, {\"key\": \"/a\"}]''"
      and vs = "[JObject [(''key'', JString ''/b'')], JObject [(''key'', JString ''/a'')]]"
      and w = "[]"]
    decode_shapes [where ev = idle_env and body = "''{\"key\": \"/a\"}''"
      and kw = "[(''key'', JString ''/a'')]" and r = "[(''key'', JString ''/a'')]" and w = "[]"]
    decode_shapes [where ev = idle_env and body = "''<html>''"
      and e = "ValueError ''No JSON object could be decoded''" and w = "[]"]
    decode_shapes [where ev = idle_env and body = "''[{\"key\": \"/b\"}, 7]''"
      and vs = "[JObject [(''key'', JString ''/b'')], JNumber 7]" and v = "JNumber 7"
      and e = "TypeError ''argument after ** must be a mapping''" and w = "[]"]
    decode_shapes [where ev = idle_env and body = "''{\"errorCode\": 100}''"
      and j = "JObject [(''errorCode'', JNumber 100)]"
      and e = "TypeError ''missing keyword argument''" and w = "[]"]
  by (simp add: test_env_simps construct_def)

subsection \<open>Membership\<close>

lemma get_unfold:
  "get c ev key =
     and_then (api_execute c ev ((version_prefix c @ ''/keys'') @ key) ''GET''
                 (Some [''recursive'' \<mapsto> PStr ''true'']))
       (result_from_response ev)"
  by (simp add: get_def getattr_simps)

text \<open>
  C10. \<^verbatim>\<open>key in client\<close> is \<^verbatim>\<open>True\<close> when \<^verbatim>\<open>get(key)\<close> returns, and \<^verbatim>\<open>False\<close> when, and only
  when, \<^verbatim>\<open>get(key)\<close> raises \<^verbatim>\<open>KeyError\<close>; every other exception of \<^verbatim>\<open>get\<close> is the exception
  of the membership test.
\<close>

theorem contains_cases:
  "(get c ev key w = (Inr r, w') \<longrightarrow> contains c ev key w = (Inr True, w'))
   \<and> (get c ev key w = (Inl (KeyError m), w') \<longrightarrow> contains c ev key w = (Inr False, w'))
   \<and> (contains c ev key w = (Inr False, w') \<longrightarrow> (\<exists>m'. get c ev key w = (Inl (KeyError m'), w')))
   \<and> (get c ev key w = (Inl e, w') \<longrightarrow> (\<forall>m'. e \<noteq> KeyError m') \<longrightarrow>
        contains c ev key w = (Inl e, w'))"
  by (auto simp add: contains_def split: prod.splits sum.splits error.splits)

theorem contains_cases_witness:
  "contains a_client (test_env (Inr \<lparr>status = 200, data = ''{\"key\": \"/a\"}''\<rparr>)) ''/a'' []
     = (Inr True,
        [Request ''GET'' ''http://127.0.0.1:4001/v2/keys/a''
           (Some [''recursive'' \<mapsto> PStr ''true'']) True])
   \<and> contains a_client (test_env (Inl (KeyError ''/a''))) ''/a'' []
     = (Inr False,
        [Request ''GET'' ''http://127.0.0.1:4001/v2/keys/a''
           (Some [''recursive'' \<mapsto> PStr ''true'']) True])
   \<and> contains a_client (test_env (Inr \<lparr>status = 200, data = ''<html>''\<rparr>)) ''/a'' []
     = (Inl (EtcdException ''Unable to decode server response''),
        [Request ''GET'' ''http://127.0.0.1:4001/v2/keys/a''
           (Some [''recursive'' \<mapsto> PStr ''true'']) True])
   \<and> contains a_client (test_env (Inr \<lparr>status = 404, data = ''{\"errorCode\": 100}''\<rparr>)) ''/a'' []
     = (Inl (NameError ''EtcdError''),
        [Request ''GET'' ''http://127.0.0.1:4001/v2/keys/a''
           (Some [''recursive'' \<mapsto> PStr ''true'']) True])"
  using
    contains_cases [where c = a_client
      and ev = "test_env (Inr \<lparr>status = 200, data = ''{\"key\": \"/a\"}''\<rparr>)"
      and key = "''/a''" and w = "[]" and r = "Single [(''key'', JString ''/a'')]"
      and w' = "[Request ''GET'' ''http://127.0.0.1:4001/v2/keys/a''
           (Some [''recursive'' \<mapsto> PStr ''true'']) True]"]
    contains_cases [where c = a_client and ev = "test_env (Inl (KeyError ''/a''))"
      and key = "''/a''" and w = "[]" and m = "''/a''"
      and w' = "[Request ''GET'' ''http://127.0.0.1:4001/v2/keys/a''
           (Some [''recursive'' \<mapsto> PStr ''true'']) True]"]
    contains_cases [where c = a_client
      and ev = "test_env (Inr \<lparr>status = 200, data = ''<html>''\<rparr>)"
      and key = "''/a''" and w = "[]"
      and e = "EtcdException ''Unable to decode server response''"
      and w' = "[Request ''GET'' ''http://127.0.0.1:4001/v2/keys/a''
           (Some [''recursive'' \<mapsto> PStr ''true'']) True]"]
    contains_cases [where c = a_client
      and ev = "test_env (Inr \<lparr>status = 404, data = ''{\"errorCode\": 100}''\<rparr>)"
      and key = "''/a''" and w = "[]" and e = "NameError ''EtcdError''"
      and w' = "[Request ''GET'' ''http://127.0.0.1:4001/v2/keys/a''
           (Some [''recursive'' \<mapsto> PStr ''true'']) True]"]
  by (simp add: get_unfold api_execute_GET test_env_simps run_simps)

end
